theory Spec2Isabelle
  imports Complex_Main "HOL-Library.Product_Lexorder"
begin

section \<open>Data model of the mesh routing core (agent/mesh/routing.py, agent/buffer.py)\<close>

text \<open>
  Conventions of the embedding.
  \<^item> A \<open>datetime\<close> is an integer number of microseconds (the resolution of Python's
    \<open>datetime\<close>); \<open>datetime.utcnow()\<close> is the parameter \<open>now\<close> of every operation
    that reads the clock. One call reads one instant.
  \<^item> A Python float is NaN, an infinity or a finite value (\<open>pyfloat\<close>); a finite value
    is an exact rational, rounding is not modelled. \<open>reliability\<close>, which is the default
    1.0 or a quotient of two counters, and the locally measured peer RTT are rationals.
  \<^item> Objects are values. A \<open>RoutePath\<close> object is identified by its position in the
    list \<open>route_table[destination]\<close>; in-place mutation of a route is an update of the
    list at that position.
  \<^item> A Python \<open>dict\<close> that the code iterates over (\<open>route_table\<close>) is an association
    list with distinct keys in insertion order; the other dicts are maps.
  \<^item> The UDP socket is an environment (\<open>network\<close>); every call of \<open>socket.sendto\<close>
    is appended to the log \<open>sendto_calls\<close> of the router state.
\<close>

type_synonym datetime = int
type_synonym addr = "string \<times> int"
type_synonym payload = "(string \<times> string) list"

definition timedelta_seconds :: "int \<Rightarrow> int" where
  "timedelta_seconds s = s * 1000000"

datatype py_error = AttributeError | RuntimeError | OSError

datatype 'a outcome = Raises | Returns 'a

subsection \<open>Floats\<close>

text \<open>
  \<open>estimated_rtt_ms\<close> holds what \<open>struct.unpack('!f', ...)\<close> reads off the wire plus the
  peer RTT, so it can be NaN or infinite. \<open>float_lt\<close> and \<open>float_eq\<close> are Python's \<open><\<close>
  and \<open>==\<close> on two float objects: every comparison with NaN is false. \<open>float_plus x q\<close>
  is \<open>x + q\<close> for a finite \<open>q\<close>.
\<close>

datatype pyfloat = NaN | NegInf | Finite rat | PosInf

fun float_lt :: "pyfloat \<Rightarrow> pyfloat \<Rightarrow> bool" where
  "float_lt NaN y = False"
| "float_lt x NaN = False"
| "float_lt NegInf NegInf = False"
| "float_lt NegInf y = True"
| "float_lt (Finite a) (Finite b) = (a < b)"
| "float_lt (Finite a) PosInf = True"
| "float_lt (Finite a) NegInf = False"
| "float_lt PosInf y = False"

fun float_eq :: "pyfloat \<Rightarrow> pyfloat \<Rightarrow> bool" where
  "float_eq NaN y = False"
| "float_eq x NaN = False"
| "float_eq x y = (x = y)"

fun float_plus :: "pyfloat \<Rightarrow> rat \<Rightarrow> pyfloat" where
  "float_plus (Finite a) q = Finite (a + q)"
| "float_plus x q = x"

subsection \<open>RoutePath\<close>

record route_path =
  target :: string
  next_hop :: string
  next_hop_addr :: addr
  total_hops :: int
  estimated_rtt_ms :: pyfloat
  last_updated :: datetime
  reliability :: rat
  success_count :: int
  failure_count :: int

text \<open>
  The dataclass constructor as \<open>handle_route_response\<close> calls it: \<open>reliability\<close>,
  \<open>success_count\<close> and \<open>failure_count\<close> take their defaults 1.0, 0 and 0.
\<close>

definition new_route_path ::
  "string \<Rightarrow> string \<Rightarrow> addr \<Rightarrow> int \<Rightarrow> pyfloat \<Rightarrow> datetime \<Rightarrow> route_path" where
  "new_route_path t nh a hops rtt updated =
     \<lparr>target = t, next_hop = nh, next_hop_addr = a, total_hops = hops,
      estimated_rtt_ms = rtt, last_updated = updated, reliability = 1,
      success_count = 0, failure_count = 0\<rparr>"

text \<open>\<open>RoutePath.is_expired\<close>: the bound is the literal 60 seconds.\<close>

definition is_expired :: "datetime \<Rightarrow> route_path \<Rightarrow> bool" where
  "is_expired now r \<longleftrightarrow> now - last_updated r > timedelta_seconds 60"

definition update_reliability :: "route_path \<Rightarrow> route_path" where
  "update_reliability r =
     (let total = success_count r + failure_count r
      in if total > 0 then r\<lparr>reliability := of_int (success_count r) / of_int total\<rparr> else r)"

definition record_success :: "datetime \<Rightarrow> route_path \<Rightarrow> route_path" where
  "record_success now r =
     (update_reliability (r\<lparr>success_count := success_count r + 1\<rparr>))\<lparr>last_updated := now\<rparr>"

definition record_failure :: "route_path \<Rightarrow> route_path" where
  "record_failure r = update_reliability (r\<lparr>failure_count := failure_count r + 1\<rparr>)"

subsection \<open>RelayMessage\<close>

record relay_message =
  message_id :: string
  msg_type :: string
  origin_node_id :: string
  destination :: string
  hop_count :: int
  max_hops :: int
  payload :: payload
  path_trace :: "string list"
  timestamp :: string

text \<open>\<open>RelayMessage.increment_hop\<close>: the returned flag and the mutated message.\<close>

definition increment_hop :: "relay_message \<Rightarrow> string \<Rightarrow> bool \<times> relay_message" where
  "increment_hop m n =
     (let m' = m\<lparr>hop_count := hop_count m + 1, path_trace := path_trace m @ [n]\<rparr>
      in (hop_count m' \<le> max_hops m', m'))"

subsection \<open>Peers, controller client, network\<close>

datatype peer_status = UNKNOWN | DISCOVERED | REACHABLE | UNREACHABLE

record peer_info =
  peer_node_id :: string
  address :: string
  port :: int
  status :: peer_status
  last_seen :: "datetime option"
  rtt_ms :: "rat option"

text \<open>
  The controller client is an external collaborator: \<open>last_success\<close> is \<open>None\<close> when the
  attribute is missing or falsy, \<open>health_check\<close> is \<open>None\<close> when the client has no such
  method; the two HTTP calls either raise or return.
\<close>

record controller_client =
  last_success :: "datetime option"
  health_check :: "bool outcome option"
  heartbeat :: "string \<Rightarrow> payload \<Rightarrow> string list option outcome"
  report_command_result :: "payload \<Rightarrow> bool outcome"

text \<open>
  \<open>socket_open\<close> is the truth value of \<open>peering._socket\<close>; \<open>sendto_raises n a\<close> tells
  whether the call of \<open>sendto\<close> to address \<open>a\<close>, made after \<open>n\<close> earlier calls, raises.
\<close>

record network =
  socket_open :: bool
  sendto_raises :: "nat \<Rightarrow> addr \<Rightarrow> bool"

datatype frame = RELAY_DATA relay_message

subsection \<open>MeshRouter state\<close>

record metrics =
  routes_discovered :: int
  messages_relayed :: int
  successful_deliveries :: int
  failed_relays :: int
  avg_hop_count :: rat

record router =
  node_id :: string
  peers :: "string \<rightharpoonup> peer_info"
  route_cache_ttl :: int
  router_max_hops :: int
  route_table :: "(string \<times> route_path list) list"
  pending_requests :: "string \<rightharpoonup> datetime"
  relay_cache :: "string \<rightharpoonup> relay_message"
  metrics :: metrics
  hop_counts :: "int list"
  sendto_calls :: "(frame \<times> addr) list"

text \<open>\<open>MeshRouter.__init__\<close>.\<close>

definition init_router :: "string \<Rightarrow> (string \<rightharpoonup> peer_info) \<Rightarrow> int \<Rightarrow> int \<Rightarrow> router" where
  "init_router nid ps ttl mh =
     \<lparr>node_id = nid, peers = ps, route_cache_ttl = ttl, router_max_hops = mh,
      route_table = [], pending_requests = Map.empty, relay_cache = Map.empty,
      metrics = \<lparr>routes_discovered = 0, messages_relayed = 0, successful_deliveries = 0,
                 failed_relays = 0, avg_hop_count = 0\<rparr>,
      hop_counts = [], sendto_calls = []\<rparr>"

text \<open>Dictionary operations on \<open>route_table\<close>.\<close>

definition routes_of :: "router \<Rightarrow> string \<Rightarrow> route_path list option" where
  "routes_of st d = map_of (route_table st) d"

fun dict_set :: "'k \<Rightarrow> 'v \<Rightarrow> ('k \<times> 'v) list \<Rightarrow> ('k \<times> 'v) list" where
  "dict_set k v [] = [(k, v)]"
| "dict_set k v ((k', v') # kvs) =
     (if k' = k then (k, v) # kvs else (k', v') # dict_set k v kvs)"

subsection \<open>Controller connectivity\<close>

definition can_reach_controller_directly :: "controller_client \<Rightarrow> datetime \<Rightarrow> bool" where
  "can_reach_controller_directly ctrl now =
     (case last_success ctrl of
        Some t \<Rightarrow> now - t < timedelta_seconds 60
      | None \<Rightarrow> (case health_check ctrl of Some (Returns b) \<Rightarrow> b | _ \<Rightarrow> False))"

subsection \<open>Route discovery: handle_route_response\<close>

fun update_first :: "('a \<Rightarrow> bool) \<Rightarrow> ('a \<Rightarrow> 'a) \<Rightarrow> 'a list \<Rightarrow> 'a list" where
  "update_first P f [] = []"
| "update_first P f (x # xs) = (if P x then f x # xs else x # update_first P f xs)"

text \<open>
  Python's \<open>peer.rtt_ms or 20\<close> on the optional peer RTT: \<open>None\<close> and \<open>0.0\<close> are falsy.
  \<open>hops\<close> and \<open>rtt\<close> of a response are what the dispatcher unpacks from the datagram.
\<close>

definition rtt_or :: "rat option \<Rightarrow> rat \<Rightarrow> rat" where
  "rtt_or x d = (case x of None \<Rightarrow> d | Some v \<Rightarrow> if v = 0 then d else v)"

text \<open>
  \<open>MeshRouter.handle_route_response\<close>. The result is the exception raised, if any, and
  the router state when the call ends. \<open>peers.get(sender_id, {})\<close> yields the empty dict
  for an unknown sender, and reading \<open>.rtt_ms\<close> of a dict raises \<open>AttributeError\<close>.
\<close>

definition handle_route_response ::
  "router \<Rightarrow> datetime \<Rightarrow> string \<Rightarrow> addr \<Rightarrow> string \<Rightarrow> string \<Rightarrow> int \<Rightarrow> pyfloat
     \<Rightarrow> py_error option \<times> router" where
  "handle_route_response st now sender_id sender_addr request_id dest hops rtt =
     (if pending_requests st request_id = None then (None, st)
      else case peers st sender_id of
        None \<Rightarrow> (Some AttributeError, st)
      | Some peer \<Rightarrow>
          let route = new_route_path dest sender_id sender_addr (hops + 1)
                        (float_plus rtt (rtt_or (rtt_ms peer) 20)) now;
              rs = (case routes_of st dest of None \<Rightarrow> [] | Some rs \<Rightarrow> rs);
              existing = filter (\<lambda>r. next_hop r = sender_id) rs
          in if existing \<noteq> [] then
               (None, st\<lparr>route_table := dict_set dest
                   (update_first (\<lambda>r. next_hop r = sender_id)
                      (\<lambda>r. r\<lparr>total_hops := total_hops route,
                              estimated_rtt_ms := estimated_rtt_ms route,
                              last_updated := last_updated route\<rparr>) rs)
                   (route_table st)\<rparr>)
             else
               (None, st\<lparr>route_table := dict_set dest (rs @ [route]) (route_table st),
                         metrics := (metrics st)\<lparr>routes_discovered :=
                                       routes_discovered (metrics st) + 1\<rparr>\<rparr>))"

subsection \<open>Route selection\<close>

definition has_route_to :: "router \<Rightarrow> datetime \<Rightarrow> string \<Rightarrow> bool" where
  "has_route_to st now dest =
     (case routes_of st dest of
        None \<Rightarrow> False
      | Some rs \<Rightarrow> length (filter (\<lambda>r. \<not> is_expired now r) rs) > 0)"

text \<open>
  The sort key is \<open>(r.total_hops, r.estimated_rtt_ms, -r.reliability)\<close>. \<open>key_lt a b\<close> is
  Python's \<open><\<close> on the keys of \<open>a\<close> and \<open>b\<close>: the first position where the items are
  not \<open>==\<close> decides, by \<open><\<close> on these items.
\<close>

definition key_lt :: "route_path \<Rightarrow> route_path \<Rightarrow> bool" where
  "key_lt a b =
     (if total_hops a \<noteq> total_hops b then total_hops a < total_hops b
      else if \<not> float_eq (estimated_rtt_ms a) (estimated_rtt_ms b)
      then float_lt (estimated_rtt_ms a) (estimated_rtt_ms b)
      else - reliability a < - reliability b)"

text \<open>
  \<open>list.sort(key=...)\<close> is stable and compares keys with \<open><\<close> only. It is modelled as
  the stable insertion sort over \<open><\<close>. On keys without NaN, \<open><\<close> is a strict weak order
  and every stable sort returns the same list. With a NaN key the comparison is not a
  total order and the result depends on the algorithm; the model agrees with CPython
  where no element is less than its predecessor: both leave such a list as it is.
\<close>

fun py_insort :: "('a \<Rightarrow> 'a \<Rightarrow> bool) \<Rightarrow> 'a \<Rightarrow> 'a list \<Rightarrow> 'a list" where
  "py_insort lt x [] = [x]"
| "py_insort lt x (y # ys) = (if lt y x then y # py_insort lt x ys else x # y # ys)"

definition py_sort :: "('a \<Rightarrow> 'a \<Rightarrow> bool) \<Rightarrow> 'a list \<Rightarrow> 'a list" where
  "py_sort lt xs = foldr (py_insort lt) xs []"

definition select_best_route :: "router \<Rightarrow> datetime \<Rightarrow> string \<Rightarrow> route_path option" where
  "select_best_route st now dest =
     (case routes_of st dest of
        None \<Rightarrow> None
      | Some rs \<Rightarrow>
          let valid_routes = filter (\<lambda>r. \<not> is_expired now r) rs
          in if valid_routes = [] then None
             else Some (hd (py_sort key_lt valid_routes)))"

text \<open>
  \<open>MeshRouter.cleanup_expired_routes\<close>: the number of removed routes and the new state.
\<close>

definition cleanup_expired_routes :: "router \<Rightarrow> datetime \<Rightarrow> int \<times> router" where
  "cleanup_expired_routes st now =
     (let kept = map (\<lambda>(d, rs). (d, filter (\<lambda>r. \<not> is_expired now r) rs)) (route_table st);
          removed = sum_list (map (\<lambda>(d, rs). int (length rs)
                       - int (length (filter (\<lambda>r. \<not> is_expired now r) rs))) (route_table st))
      in (removed, st\<lparr>route_table := filter (\<lambda>(d, rs). rs \<noteq> []) kept\<rparr>))"

subsection \<open>Message relay\<close>

text \<open>
  \<open>get_all_routes\<close> returns the non-expired \<open>RoutePath\<close> objects of a destination. The
  relay loop mutates these objects, so they are returned as references: the positions in
  \<open>route_table[destination]\<close>. \<open>deref\<close> reads the object behind a reference and
  \<open>update_route\<close> mutates it in place.
\<close>

definition deref :: "router \<Rightarrow> string \<Rightarrow> nat \<Rightarrow> route_path" where
  "deref st dest i = (case routes_of st dest of Some rs \<Rightarrow> rs ! i)"

definition update_route :: "router \<Rightarrow> string \<Rightarrow> nat \<Rightarrow> (route_path \<Rightarrow> route_path) \<Rightarrow> router" where
  "update_route st dest i f =
     (case routes_of st dest of
        None \<Rightarrow> st
      | Some rs \<Rightarrow> st\<lparr>route_table := dict_set dest (rs[i := f (rs ! i)]) (route_table st)\<rparr>)"

definition get_all_routes :: "router \<Rightarrow> datetime \<Rightarrow> string \<Rightarrow> nat list" where
  "get_all_routes st now dest =
     (case routes_of st dest of
        None \<Rightarrow> []
      | Some rs \<Rightarrow> filter (\<lambda>i. \<not> is_expired now (rs ! i)) [0..<length rs])"

text \<open>The circuit-breaker filter \<open>r.reliability >= 0.2 or r.failure_count < 3\<close>.\<close>

definition is_viable :: "route_path \<Rightarrow> bool" where
  "is_viable r \<longleftrightarrow> reliability r \<ge> 2 / 10 \<or> failure_count r < 3"

text \<open>Lines 498 to 509 of \<open>relay_message\<close>: the sorted list and the list that is walked.\<close>

definition sorted_routes :: "router \<Rightarrow> datetime \<Rightarrow> string \<Rightarrow> nat list" where
  "sorted_routes st now dest =
     py_sort (\<lambda>i j. key_lt (deref st dest i) (deref st dest j))
       (get_all_routes st now dest)"

definition viable_routes :: "router \<Rightarrow> datetime \<Rightarrow> string \<Rightarrow> nat list" where
  "viable_routes st now dest =
     (let viable = filter (\<lambda>i. is_viable (deref st dest i)) (sorted_routes st now dest)
      in if viable = [] then sorted_routes st now dest else viable)"

text \<open>
  \<open>_send_to_peer\<close>: without a socket it raises \<open>RuntimeError\<close>; otherwise it calls
  \<open>sendto\<close>, which is logged and may raise.
\<close>

definition send_to_peer :: "network \<Rightarrow> router \<Rightarrow> frame \<Rightarrow> addr \<Rightarrow> py_error option \<times> router" where
  "send_to_peer net st data a =
     (if socket_open net then
        (if sendto_raises net (length (sendto_calls st)) a then Some OSError else None,
         st\<lparr>sendto_calls := sendto_calls st @ [(data, a)]\<rparr>)
      else (Some RuntimeError, st))"

definition update_avg_hop_count :: "router \<Rightarrow> router" where
  "update_avg_hop_count st =
     (if hop_counts st \<noteq> [] then
        let hc = (if length (hop_counts st) > 100
                  then drop (length (hop_counts st) - 100) (hop_counts st)
                  else hop_counts st)
        in st\<lparr>hop_counts := hc,
              metrics := (metrics st)\<lparr>avg_hop_count :=
                           of_int (sum_list hc) / of_int (int (length hc))\<rparr>\<rparr>
      else st)"

definition count_failed_relay :: "router \<Rightarrow> router" where
  "count_failed_relay st = st\<lparr>metrics := (metrics st)\<lparr>failed_relays := failed_relays (metrics st) + 1\<rparr>\<rparr>"

text \<open>
  The \<open>for route in viable_routes\<close> loop of \<open>relay_message\<close>. The result is \<open>True\<close> when
  the loop returned from the function with success, and the state the loop leaves.
\<close>

fun relay_loop ::
  "network \<Rightarrow> datetime \<Rightarrow> relay_message \<Rightarrow> int \<Rightarrow> nat list \<Rightarrow> int \<Rightarrow> string set \<Rightarrow> router
     \<Rightarrow> bool \<times> router" where
  "relay_loop net now m max_retries [] attempts tried st = (False, st)"
| "relay_loop net now m max_retries (i # rest) attempts tried st =
     (if attempts \<ge> max_retries + 1 then (False, st)
      else let route = deref st (destination m) i in
        if next_hop route \<in> tried then relay_loop net now m max_retries rest attempts tried st
        else
          (case send_to_peer net st (RELAY_DATA m) (next_hop_addr route) of
             (None, st1) \<Rightarrow>
               let st2 = update_route st1 (destination m) i (record_success now);
                   st3 = st2\<lparr>metrics := (metrics st2)\<lparr>messages_relayed :=
                                  messages_relayed (metrics st2) + 1\<rparr>,
                             hop_counts := hop_counts st2 @ [hop_count m]\<rparr>
               in (True, update_avg_hop_count st3)
           | (Some e, st1) \<Rightarrow>
               relay_loop net now m max_retries rest (attempts + 1)
                 (insert (next_hop route) tried)
                 (update_route st1 (destination m) i record_failure)))"

text \<open>
  \<open>MeshRouter.relay_message\<close>: the returned flag, the router state and the message
  object (which \<open>increment_hop\<close> mutates) when the call ends.
\<close>

definition relay_message ::
  "network \<Rightarrow> router \<Rightarrow> datetime \<Rightarrow> relay_message \<Rightarrow> int \<Rightarrow> bool \<times> router \<times> relay_message" where
  "relay_message net st now message max_retries =
     (if hop_count message \<ge> max_hops message then (False, count_failed_relay st, message)
      else if get_all_routes st now (destination message) = []
      then (False, count_failed_relay st, message)
      else
        let candidates = viable_routes st now (destination message) in
        case increment_hop message (node_id st) of
          (False, message') \<Rightarrow> (False, count_failed_relay st, message')
        | (True, message') \<Rightarrow>
            let st1 = st\<lparr>relay_cache := (relay_cache st)(message_id message' \<mapsto> message')\<rparr>
            in (case relay_loop net now message' max_retries candidates 0 {} st1 of
                  (True, st2) \<Rightarrow> (True, st2, message')
                | (False, st2) \<Rightarrow>
                    (False,
                     (count_failed_relay st2)\<lparr>relay_cache :=
                         (relay_cache st2)(message_id message' := None)\<rparr>,
                     message')))"

subsection \<open>Inbound relay and acknowledgements\<close>

text \<open>
  \<open>_send_relay_ack\<close> builds the frame \<open>MSG_RELAY_ACK + message_id + 0x00 + flag\<close>, writes
  a debug log line and returns; the frame is not passed to \<open>_send_to_peer\<close>.
\<close>

definition relay_ack_frame :: "string \<Rightarrow> bool \<Rightarrow> string" where
  "relay_ack_frame mid success =
     [CHR 0x07] @ mid @ [CHR 0x00] @ (if success then [CHR 0x01] else [CHR 0x00])"

definition send_relay_ack :: "router \<Rightarrow> string \<Rightarrow> string \<Rightarrow> bool \<Rightarrow> router" where
  "send_relay_ack st mid origin success = (let message = relay_ack_frame mid success in st)"

definition handle_message_for_self :: "router \<Rightarrow> relay_message \<Rightarrow> addr \<Rightarrow> router" where
  "handle_message_for_self st message sender_addr =
     send_relay_ack st (message_id message) (origin_node_id message) True"

text \<open>\<open>_forward_to_controller\<close>: the delivery outcome and the state.\<close>

definition forward_to_controller ::
  "controller_client \<Rightarrow> router \<Rightarrow> datetime \<Rightarrow> relay_message \<Rightarrow> addr \<Rightarrow> bool \<times> router" where
  "forward_to_controller ctrl st now message sender_addr =
     (let success =
            (if msg_type message = ''heartbeat'' then
               (case heartbeat ctrl (origin_node_id message) (payload message) of
                  Raises \<Rightarrow> False
                | Returns result \<Rightarrow> result \<noteq> None)
             else if msg_type message = ''command_result'' then
               (case report_command_result ctrl (payload message) of
                  Raises \<Rightarrow> False
                | Returns b \<Rightarrow> True)
             else False);
          st1 = (if success then
                   st\<lparr>metrics := (metrics st)\<lparr>successful_deliveries :=
                                    successful_deliveries (metrics st) + 1\<rparr>,
                      route_table := map (\<lambda>(d, rs).
                          (d, map (\<lambda>r. if next_hop_addr r = sender_addr
                                         then record_success now r else r) rs))
                        (route_table st)\<rparr>
                 else st)
      in (success, send_relay_ack st1 (message_id message) (origin_node_id message) success))"

text \<open>
  \<open>handle_incoming_relay\<close>; the argument is the parsed message, \<open>None\<close> when
  \<open>RelayMessage.from_bytes\<close> raises.
\<close>

definition handle_incoming_relay ::
  "network \<Rightarrow> controller_client \<Rightarrow> router \<Rightarrow> datetime \<Rightarrow> relay_message option \<Rightarrow> addr \<Rightarrow> router" where
  "handle_incoming_relay net ctrl st now parsed sender_addr =
     (case parsed of
        None \<Rightarrow> st
      | Some message \<Rightarrow>
          if destination message = node_id st
          then handle_message_for_self st message sender_addr
          else if destination message = ''controller'' \<and> can_reach_controller_directly ctrl now
          then snd (forward_to_controller ctrl st now message sender_addr)
          else if hop_count message < max_hops message
          then fst (snd (relay_message net st now message 2))
          else st)"

subsection \<open>LocalBuffer (agent/buffer.py)\<close>

record buffered_item =
  item_type :: string
  data :: payload
  item_timestamp :: string
  attempt_count :: int

record local_buffer =
  max_items :: int
  persist_path :: "string option"
  flush_batch_size :: int
  items :: "buffered_item list"

text \<open>
  \<open>LocalBuffer._add_item\<close>; \<open>ts\<close> is \<open>datetime.utcnow().isoformat()\<close>. The slice
  \<open>items[dropped:]\<close> has a positive \<open>dropped\<close>. Writing the disk image does not change
  \<open>items\<close> (\<open>_save_to_disk\<close> catches its own exceptions).
\<close>

definition add_item :: "local_buffer \<Rightarrow> string \<Rightarrow> string \<Rightarrow> payload \<Rightarrow> local_buffer" where
  "add_item buf ts ty d =
     (let item = \<lparr>item_type = ty, data = d, item_timestamp = ts, attempt_count = 0\<rparr>;
          appended = items buf @ [item]
      in if int (length appended) > max_items buf
         then buf\<lparr>items := drop (nat (int (length appended) - max_items buf)) appended\<rparr>
         else buf\<lparr>items := appended\<rparr>)"

text \<open>A sequence of insertions, each given as (timestamp, item type, data).\<close>

fun add_items :: "local_buffer \<Rightarrow> (string \<times> string \<times> payload) list \<Rightarrow> local_buffer" where
  "add_items buf [] = buf"
| "add_items buf ((ts, ty, d) # rest) = add_items (add_item buf ts ty d) rest"

definition new_item :: "string \<times> string \<times> payload \<Rightarrow> buffered_item" where
  "new_item x = (case x of (ts, ty, d) \<Rightarrow>
     \<lparr>item_type = ty, data = d, item_timestamp = ts, attempt_count = 0\<rparr>)"

subsection \<open>Concrete fixtures (agent/tests/conftest.py)\<close>

definition sample_route_path :: route_path where
  "sample_route_path =
     \<lparr>target = ''controller'', next_hop = ''node-002'',
      next_hop_addr = (''192.168.1.102'', 7777), total_hops = 1,
      estimated_rtt_ms = Finite 50,
      last_updated = 0, reliability = 1, success_count = 0, failure_count = 0\<rparr>"

definition sample_relay_message :: relay_message where
  "sample_relay_message =
     \<lparr>message_id = ''test-msg-001'', msg_type = ''heartbeat'', origin_node_id = ''node-001'',
      destination = ''controller'', hop_count = 0, max_hops = 5,
      payload = [(''node_id'', ''node-001''), (''cpu_usage'', ''45.0'')],
      path_trace = [''node-001''], timestamp = ''2024-01-01T00:00:00''\<rparr>"

definition mesh_router :: router where
  "mesh_router =
     (init_router ''test-node-001'' Map.empty 60 5)\<lparr>route_table :=
        [(''controller'', [sample_route_path])]\<rparr>"

definition mock_network :: network where
  "mock_network = \<lparr>socket_open = True, sendto_raises = (\<lambda>n a. False)\<rparr>"

definition ttl_message :: relay_message where
  "ttl_message = sample_relay_message\<lparr>message_id := ''test-002'', hop_count := 5,
     path_trace := [''n1'', ''n2'', ''n3'', ''n4'', ''n5'']\<rparr>"

definition pending_router :: router where
  "pending_router = mesh_router\<lparr>pending_requests := [''req-0001'' \<mapsto> 0]\<rparr>"

definition small_buffer :: local_buffer where
  "small_buffer = \<lparr>max_items = 2, persist_path = None, flush_batch_size = 50, items = []\<rparr>"

definition three_inserts :: "(string \<times> string \<times> payload) list" where
  "three_inserts =
     [(''t1'', ''telemetry'', [(''cpu'', ''1'')]),
      (''t2'', ''command_result'', [(''command_id'', ''c-1'')]),
      (''t3'', ''telemetry'', [(''cpu'', ''3'')])]"

definition short_ttl_router :: router where
  "short_ttl_router =
     (init_router ''test-node-001'' Map.empty 10 5)\<lparr>route_table :=
        [(''controller'', [sample_route_path])]\<rparr>"

definition one_hop_slow :: route_path where
  "one_hop_slow = new_route_path ''controller'' ''node-002'' (''192.168.1.102'', 7777) 1 (Finite 100) 0"

definition two_hop_fast :: route_path where
  "two_hop_fast = new_route_path ''controller'' ''node-003'' (''192.168.1.103'', 7777) 2 (Finite 50) 0"

definition two_hop_slow :: route_path where
  "two_hop_slow = new_route_path ''controller'' ''node-004'' (''192.168.1.104'', 7777) 2 (Finite 150) 0"

definition expired_route_path :: route_path where
  "expired_route_path =
     new_route_path ''controller'' ''node-005'' (''192.168.1.105'', 7777) 0 (Finite 1)
       (- 120000000)"

definition selection_router :: router where
  "selection_router =
     (init_router ''test-node-001'' Map.empty 60 5)\<lparr>route_table :=
        [(''controller'', [expired_route_path, two_hop_slow, two_hop_fast, one_hop_slow])]\<rparr>"

definition tie_router :: router where
  "tie_router =
     (init_router ''test-node-001'' Map.empty 60 5)\<lparr>route_table :=
        [(''controller'', [two_hop_slow, two_hop_fast])]\<rparr>"

definition node_003 :: peer_info where
  "node_003 = \<lparr>peer_node_id = ''node-003'', address = ''192.168.1.103'', port = 7777,
                status = REACHABLE, last_seen = Some 0, rtt_ms = Some 150\<rparr>"

definition peered_router :: router where
  "peered_router = pending_router\<lparr>peers := [''node-003'' \<mapsto> node_003]\<rparr>"

definition mock_controller :: controller_client where
  "mock_controller =
     \<lparr>last_success = Some 0, health_check = None,
      heartbeat = (\<lambda>n p. Returns None), report_command_result = (\<lambda>p. Returns True)\<rparr>"

definition message_for_self :: relay_message where
  "message_for_self = sample_relay_message\<lparr>destination := ''test-node-001'', hop_count := 1\<rparr>"








subsection \<open>Predicates of the specification\<close>





text \<open>
  The reliability invariant of the specification, for counters that count (are not
  negative): the success ratio when an attempt was recorded, else 1.
\<close>

definition reliability_invariant :: "route_path \<Rightarrow> bool" where
  "reliability_invariant r \<longleftrightarrow>
     0 \<le> success_count r \<and> 0 \<le> failure_count r \<and>
     reliability r =
       (if success_count r + failure_count r > 0
        then of_int (success_count r) / of_int (success_count r + failure_count r)
        else 1)"

definition table_routes :: "router \<Rightarrow> route_path list" where
  "table_routes st = concat (map snd (route_table st))"

section \<open>Verified properties\<close>

lemmas relay_eval = new_route_path_def relay_message_def count_failed_relay_def get_all_routes_def routes_of_def
  viable_routes_def sorted_routes_def deref_def is_expired_def timedelta_seconds_def
  is_viable_def key_lt_def py_sort_def increment_hop_def send_to_peer_def update_route_def
  record_success_def record_failure_def update_reliability_def update_avg_hop_count_def
  init_router_def Let_def

lemmas fixture_defs = mesh_router_def sample_route_path_def sample_relay_message_def
  mock_network_def ttl_message_def pending_router_def

lemmas response_defs = peered_router_def pending_router_def mesh_router_def init_router_def
  node_003_def sample_route_path_def new_route_path_def routes_of_def rtt_or_def
  handle_route_response_def cleanup_expired_routes_def is_expired_def timedelta_seconds_def
  table_routes_def Let_def

subsection \<open>TTL enforcement\<close>

text \<open>
  Claim C4. For every relay message whose \<open>hop_count\<close> is at least its \<open>max_hops\<close>,
  \<open>relay_message\<close> returns false; the only change of the router state is that the
  \<open>failed_relays\<close> metric grows by one, so no datagram is sent and the route table is as
  before, and the message is not modified.
\<close>

theorem relay_message_ttl_exceeded:
  assumes "hop_count m \<ge> max_hops m"
  shows "relay_message net st now m max_retries =
           (False,
            st\<lparr>metrics := (metrics st)\<lparr>failed_relays := failed_relays (metrics st) + 1\<rparr>\<rparr>,
            m)"
  using assms by (simp add: relay_message_def count_failed_relay_def)

theorem relay_message_ttl_exceeded_witness:
  "hop_count ttl_message \<ge> max_hops ttl_message \<and>
   fst (relay_message mock_network mesh_router 1000000 ttl_message 2) = False \<and>
   failed_relays (metrics (fst (snd (relay_message mock_network mesh_router 1000000 ttl_message 2)))) = 1 \<and>
   sendto_calls (fst (snd (relay_message mock_network mesh_router 1000000 ttl_message 2))) = [] \<and>
   route_table (fst (snd (relay_message mock_network mesh_router 1000000 ttl_message 2)))
     = route_table mesh_router \<and>
   snd (snd (relay_message mock_network mesh_router 1000000 ttl_message 2)) = ttl_message"
proof -
  have h: "hop_count ttl_message \<ge> max_hops ttl_message"
    by (simp add: fixture_defs)
  show ?thesis
    using h relay_message_ttl_exceeded [OF h, of mock_network mesh_router 1000000 2]
    by (simp add: mesh_router_def init_router_def)
qed

subsection \<open>Hop increment\<close>

lemma increment_hop_eq:
  "increment_hop m n =
     (hop_count m + 1 \<le> max_hops m,
      m\<lparr>hop_count := hop_count m + 1, path_trace := path_trace m @ [n]\<rparr>)"
  by (simp add: increment_hop_def Let_def)

text \<open>
  Claim C7. \<open>increment_hop n\<close> adds one to \<open>hop_count\<close> and appends \<open>n\<close> to \<open>path_trace\<close>
  whatever it returns, and it returns true exactly when the incremented \<open>hop_count\<close> is at
  most \<open>max_hops\<close>. Whenever \<open>relay_message\<close> returns true, the message it leaves has its
  \<open>hop_count\<close> increased by exactly one and the relaying node's id appended to the trace.
\<close>

theorem increment_hop_and_relay_monotone:
  "snd (increment_hop m n) =
      m\<lparr>hop_count := hop_count m + 1, path_trace := path_trace m @ [n]\<rparr> \<and>
   (fst (increment_hop m n) \<longleftrightarrow> hop_count m + 1 \<le> max_hops m) \<and>
   (fst (relay_message net st now m max_retries) \<longrightarrow>
      snd (snd (relay_message net st now m max_retries)) =
        m\<lparr>hop_count := hop_count m + 1, path_trace := path_trace m @ [node_id st]\<rparr>)"
  by (auto simp: relay_message_def increment_hop_eq Let_def count_failed_relay_def
           split: if_splits prod.splits bool.splits)

theorem increment_hop_and_relay_monotone_witness:
  "fst (relay_message mock_network mesh_router 1000000 sample_relay_message 2) \<and>
   hop_count (snd (snd (relay_message mock_network mesh_router 1000000 sample_relay_message 2))) = 1 \<and>
   path_trace (snd (snd (relay_message mock_network mesh_router 1000000 sample_relay_message 2)))
     = [''node-001'', ''test-node-001''] \<and>
   \<not> fst (increment_hop ttl_message ''n6'') \<and>
   hop_count (snd (increment_hop ttl_message ''n6'')) = 6"
proof -
  have h: "fst (relay_message mock_network mesh_router 1000000 sample_relay_message 2)"
    by (simp add: relay_eval fixture_defs)
  show ?thesis
    using h
      increment_hop_and_relay_monotone
        [of sample_relay_message "''n6''" mock_network mesh_router 1000000 2]
      increment_hop_and_relay_monotone
        [of ttl_message "''n6''" mock_network mesh_router 1000000 2]
    by (simp add: fixture_defs init_router_def)
qed

subsection \<open>Route responses from unknown peers\<close>

text \<open>
  Claim C10. When \<open>handle_route_response\<close> is called with a request id that is in
  \<open>pending_requests\<close> and a sender id that is not a key of the peer table, the call raises
  (an \<open>AttributeError\<close>, while computing the estimated RTT) and the router state, hence the
  route table, is unchanged.
\<close>

theorem handle_route_response_unknown_sender:
  assumes "pending_requests st request_id \<noteq> None" and "peers st sender_id = None"
  shows "handle_route_response st now sender_id sender_addr request_id dest hops rtt
           = (Some AttributeError, st)"
  using assms by (simp add: handle_route_response_def)

theorem handle_route_response_unknown_sender_witness:
  "pending_requests pending_router ''req-0001'' \<noteq> None \<and>
   peers pending_router ''node-009'' = None \<and>
   fst (handle_route_response pending_router 5000000 ''node-009'' (''192.168.1.109'', 7777)
          ''req-0001'' ''controller'' 0 (Finite 10)) = Some AttributeError \<and>
   route_table (snd (handle_route_response pending_router 5000000 ''node-009''
          (''192.168.1.109'', 7777) ''req-0001'' ''controller'' 0 (Finite 10)))
     = route_table pending_router"
proof -
  have h1: "pending_requests pending_router ''req-0001'' \<noteq> None"
    by (simp add: pending_router_def)
  have h2: "peers pending_router ''node-009'' = None"
    by (simp add: pending_router_def mesh_router_def init_router_def)
  show ?thesis
    using h1 h2 handle_route_response_unknown_sender [OF h1 h2,
        of 5000000 "(''192.168.1.109'', 7777)" "''controller''" 0 "Finite 10"]
    by simp
qed

subsection \<open>Buffer cap\<close>

lemma add_item_items:
  assumes "max_items buf = int N"
  shows "items (add_item buf ts ty d) =
           drop (Suc (length (items buf)) - N) (items buf @ [new_item (ts, ty, d)])"
proof -
  have n: "nat (int (length (items buf @ [new_item (ts, ty, d)])) - int N)
             = Suc (length (items buf)) - N"
    by simp
  show ?thesis
  proof (cases "Suc (length (items buf)) > N")
    case True
    then show ?thesis using assms n
      by (simp add: add_item_def new_item_def Let_def del: drop_append)
  next
    case False
    then show ?thesis using assms
      by (simp add: add_item_def new_item_def Let_def)
  qed
qed

lemma add_item_max_items: "max_items (add_item buf ts ty d) = max_items buf"
  by (simp add: add_item_def Let_def)

lemma add_item_length: "max_items buf = int N \<Longrightarrow> length (items (add_item buf ts ty d)) \<le> N"
  by (simp add: add_item_items)

lemma drop_excess_append:
  "drop (length (drop (length ys - N) ys) + length zs - N) (drop (length ys - N) ys @ zs)
     = drop (length ys + length zs - N) (ys @ zs)"
proof (cases "length ys \<le> N")
  case True
  then show ?thesis by simp
next
  case False
  define a where "a = length ys - N"
  have a: "a \<le> length ys" "length ys - a = N" "length ys + length zs - N = length zs + a"
    using False by (simp_all add: a_def)
  have "drop (length zs + a) (ys @ zs) = drop (length zs) (drop a (ys @ zs))"
    by (simp only: drop_drop)
  also have "drop a (ys @ zs) = drop a ys @ zs" using a(1) by simp
  finally show ?thesis using a by (simp add: a_def del: drop_append)
qed

lemma add_items_items:
  assumes "max_items buf = int N" and "xs \<noteq> [] \<or> length (items buf) \<le> N"
  shows "items (add_items buf xs) =
           drop (length (items buf) + length xs - N) (items buf @ map new_item xs)"
  using assms
proof (induction xs arbitrary: buf)
  case Nil
  then show ?case by simp
next
  case (Cons x xs)
  obtain ts ty d where x: "x = (ts, ty, d)" by (cases x)
  let ?b = "add_item buf ts ty d"
  let ?ys = "items buf @ [new_item x]"
  have b: "items ?b = drop (length ?ys - N) ?ys"
    using Cons.prems(1) x by (simp add: add_item_items del: drop_append)
  have len: "length (items ?b) \<le> N"
    using Cons.prems(1) by (rule add_item_length)
  have "items (add_items ?b xs) =
          drop (length (items ?b) + length xs - N) (items ?b @ map new_item xs)"
    using Cons.IH [of ?b] len Cons.prems(1) by (simp add: add_item_max_items)
  also have "\<dots> = drop (length ?ys + length (map new_item xs) - N) (?ys @ map new_item xs)"
    unfolding b using drop_excess_append [of ?ys N "map new_item xs"] by (simp only: length_map)
  finally show ?case using x by simp
qed

text \<open>
  Claim C9. For a buffer with \<open>max_items = N\<close>, after \<open>N + k\<close> insertions the buffer holds
  exactly the \<open>N\<close> most recently inserted items in insertion order: the items built from
  the insertions without the first \<open>k\<close>. This holds from any starting contents once at
  least one insertion is made, and from contents within the cap for no insertion at all.
\<close>

theorem buffer_cap:
  assumes "max_items buf = int N" and "length xs = N + k"
    and "xs \<noteq> [] \<or> length (items buf) \<le> N"
  shows "items (add_items buf xs) = map new_item (drop k xs) \<and>
         length (items (add_items buf xs)) = N"
  using assms add_items_items [of buf N xs] by (simp add: drop_map)

theorem buffer_cap_witness:
  "max_items small_buffer = int 2 \<and> length three_inserts = 2 + 1 \<and>
   three_inserts \<noteq> [] \<and>
   items (add_items small_buffer three_inserts) =
     [\<lparr>item_type = ''command_result'', data = [(''command_id'', ''c-1'')],
       item_timestamp = ''t2'', attempt_count = 0\<rparr>,
      \<lparr>item_type = ''telemetry'', data = [(''cpu'', ''3'')],
       item_timestamp = ''t3'', attempt_count = 0\<rparr>] \<and>
   length (items (add_items small_buffer three_inserts)) = 2"
proof -
  have h1: "max_items small_buffer = int 2" by (simp add: small_buffer_def)
  have h2: "length three_inserts = 2 + 1" by (simp add: three_inserts_def)
  have h3: "three_inserts \<noteq> [] \<or> length (items small_buffer) \<le> 2"
    by (simp add: three_inserts_def)
  show ?thesis
    using h1 h2 h3 buffer_cap [OF h1 h2 h3]
    by (simp add: three_inserts_def new_item_def)
qed

subsection \<open>Route expiry\<close>

lemmas selection_defs = selection_router_def tie_router_def short_ttl_router_def
  init_router_def routes_of_def is_expired_def timedelta_seconds_def new_route_path_def
  expired_route_path_def two_hop_slow_def two_hop_fast_def one_hop_slow_def
  sample_route_path_def key_lt_def py_sort_def

text \<open>
  Claim C1. The claim is that a route older than the configured \<open>route_cache_ttl\<close> is
  never returned by \<open>select_best_route\<close> nor counted by \<open>has_route_to\<close>. The code compares
  the age with the literal 60 seconds and never reads \<open>route_cache_ttl\<close>: with
  \<open>route_cache_ttl = 10\<close>, a route last updated 30 seconds ago is older than the
  configured value, and it is selected and counted as a valid route.
\<close>

theorem expiry_ignores_route_cache_ttl:
  "route_cache_ttl short_ttl_router = 10 \<and>
   30000000 - last_updated sample_route_path
      > timedelta_seconds (route_cache_ttl short_ttl_router) \<and>
   select_best_route short_ttl_router 30000000 ''controller'' = Some sample_route_path \<and>
   has_route_to short_ttl_router 30000000 ''controller''"
  by (simp add: selection_defs select_best_route_def has_route_to_def)

subsection \<open>Route selection\<close>















subsection \<open>Reliability invariant\<close>

lemma inv_new: "reliability_invariant (new_route_path t nh a h rtt u)"
  by (simp add: reliability_invariant_def new_route_path_def)

lemma inv_success: "reliability_invariant r \<Longrightarrow> reliability_invariant (record_success now r)"
  by (simp add: reliability_invariant_def record_success_def update_reliability_def Let_def)

lemma inv_failure: "reliability_invariant r \<Longrightarrow> reliability_invariant (record_failure r)"
  by (simp add: reliability_invariant_def record_failure_def update_reliability_def Let_def)

lemma inv_refresh:
  "reliability_invariant r \<Longrightarrow>
   reliability_invariant (r\<lparr>total_hops := h, estimated_rtt_ms := t, last_updated := u\<rparr>)"
  by (simp add: reliability_invariant_def)

lemma map_of_dict_set: "map_of (dict_set k v al) = (map_of al)(k \<mapsto> v)"
  by (induction al) auto

lemma routes_dict_set:
  "set (concat (map snd (dict_set k v al))) \<subseteq> set v \<union> set (concat (map snd al))"
  by (induction k v al rule: dict_set.induct) auto

lemma map_of_routes_subset: "map_of al k = Some rs \<Longrightarrow> set rs \<subseteq> set (concat (map snd al))"
  by (induction al) (auto split: if_splits)

lemma set_update_first: "set (update_first P f xs) \<subseteq> set xs \<union> f ` {x \<in> set xs. P x}"
  by (induction xs) auto

lemma update_first_hit:
  "\<exists>x\<in>set xs. P x \<Longrightarrow> \<exists>x\<in>set xs. P x \<and> f x \<in> set (update_first P f xs)"
  by (induction xs) auto

lemma routes_of_dict_set:
  "route_table st' = dict_set k v (route_table st) \<Longrightarrow> routes_of st' k = Some v"
  by (simp add: routes_of_def map_of_dict_set)

text \<open>The three ways a route response leaves the route table.\<close>

lemma hrr_route_table:
  fixes st now sender a rid dest hops rtt
  defines "rs \<equiv> (case routes_of st dest of None \<Rightarrow> [] | Some rs \<Rightarrow> rs)"
  defines "st' \<equiv> snd (handle_route_response st now sender a rid dest hops rtt)"
  shows "route_table st' = route_table st \<or>
         (\<exists>peer. peers st sender = Some peer \<and> pending_requests st rid \<noteq> None \<and>
            (\<exists>x\<in>set rs. next_hop x = sender) \<and>
            route_table st' = dict_set dest
              (update_first (\<lambda>r. next_hop r = sender)
                 (\<lambda>r. r\<lparr>total_hops := hops + 1,
                         estimated_rtt_ms := float_plus rtt (rtt_or (rtt_ms peer) 20),
                         last_updated := now\<rparr>) rs) (route_table st)) \<or>
         (\<exists>peer. peers st sender = Some peer \<and> pending_requests st rid \<noteq> None \<and>
            (\<forall>x\<in>set rs. next_hop x \<noteq> sender) \<and>
            route_table st' = dict_set dest
              (rs @ [new_route_path dest sender a (hops + 1)
                       (float_plus rtt (rtt_or (rtt_ms peer) 20)) now]) (route_table st))"
proof (cases "pending_requests st rid = None")
  case True
  then show ?thesis by (simp add: st'_def handle_route_response_def)
next
  case False
  then obtain t where pend: "pending_requests st rid = Some t" by auto
  show ?thesis
  proof (cases "peers st sender")
    case None
    then show ?thesis using pend by (simp add: st'_def handle_route_response_def)
  next
    case (Some peer)
    show ?thesis
    proof (cases "filter (\<lambda>r. next_hop r = sender) rs = []")
      case True
      then have "\<forall>x\<in>set rs. next_hop x \<noteq> sender" by (simp add: filter_empty_conv)
      moreover have "route_table st' = dict_set dest
              (rs @ [new_route_path dest sender a (hops + 1)
                       (float_plus rtt (rtt_or (rtt_ms peer) 20)) now]) (route_table st)"
        using True pend Some
        by (simp add: st'_def handle_route_response_def Let_def rs_def)
      ultimately show ?thesis using pend Some by simp
    next
      case False
      then have "\<exists>x\<in>set rs. next_hop x = sender" by (auto simp: filter_empty_conv)
      moreover have "route_table st' = dict_set dest
              (update_first (\<lambda>r. next_hop r = sender)
                 (\<lambda>r. r\<lparr>total_hops := hops + 1,
                         estimated_rtt_ms := float_plus rtt (rtt_or (rtt_ms peer) 20),
                         last_updated := now\<rparr>) rs) (route_table st)"
        using False pend Some
        by (simp add: st'_def handle_route_response_def Let_def rs_def new_route_path_def)
      ultimately show ?thesis using pend Some by simp
    qed
  qed
qed

lemma table_routes_dict_set:
  assumes "\<forall>r\<in>set (table_routes st). P r" and "\<forall>r\<in>set v. P r"
    and "route_table st' = dict_set k v (route_table st)"
  shows "\<forall>r\<in>set (table_routes st'). P r"
proof
  fix r assume "r \<in> set (table_routes st')"
  then have "r \<in> set v \<union> set (concat (map snd (route_table st)))"
    using routes_dict_set [of k v "route_table st"] assms(3)
    by (auto simp: table_routes_def simp del: set_concat)
  then show "P r" using assms(1,2) by (auto simp: table_routes_def simp del: set_concat)
qed

lemma routes_of_in_table:
  assumes "\<forall>r\<in>set (table_routes st). P r"
  shows "\<forall>r\<in>set (case routes_of st dest of None \<Rightarrow> [] | Some rs \<Rightarrow> rs). P r"
proof (cases "routes_of st dest")
  case None
  then show ?thesis by simp
next
  case (Some rs')
  then have "set rs' \<subseteq> set (concat (map snd (route_table st)))"
    by (intro map_of_routes_subset [of _ dest]) (simp add: routes_of_def)
  then show ?thesis using assms Some by (auto simp: table_routes_def simp del: set_concat)
qed

lemma hrr_table:
  assumes "list_all reliability_invariant (table_routes st)"
  shows "list_all reliability_invariant
           (table_routes (snd (handle_route_response st now sender a rid dest hops rtt)))"
proof -
  let ?st' = "snd (handle_route_response st now sender a rid dest hops rtt)"
  let ?rs = "case routes_of st dest of None \<Rightarrow> [] | Some rs \<Rightarrow> rs"
  have all: "\<forall>r\<in>set (table_routes st). reliability_invariant r"
    using assms by (simp add: list_all_iff)
  have rs: "\<forall>r\<in>set ?rs. reliability_invariant r"
    using all by (rule routes_of_in_table)
  from hrr_route_table [of st now sender a rid dest hops rtt]
  consider (same) "route_table ?st' = route_table st"
    | (upd) f where "route_table ?st' = dict_set dest
          (update_first (\<lambda>r. next_hop r = sender)
             (\<lambda>r. r\<lparr>total_hops := hops + 1, estimated_rtt_ms := f, last_updated := now\<rparr>) ?rs)
          (route_table st)"
    | (app) f where "route_table ?st' = dict_set dest
          (?rs @ [new_route_path dest sender a (hops + 1) f now]) (route_table st)"
    by blast
  then have "\<forall>r\<in>set (table_routes ?st'). reliability_invariant r"
  proof cases
    case same
    then show ?thesis using all by (simp add: table_routes_def)
  next
    case (upd f)
    have "\<forall>r\<in>set (update_first (\<lambda>r. next_hop r = sender)
             (\<lambda>r. r\<lparr>total_hops := hops + 1, estimated_rtt_ms := f, last_updated := now\<rparr>) ?rs).
            reliability_invariant r"
    proof
      fix r
      assume "r \<in> set (update_first (\<lambda>r. next_hop r = sender)
             (\<lambda>r. r\<lparr>total_hops := hops + 1, estimated_rtt_ms := f, last_updated := now\<rparr>) ?rs)"
      then have "r \<in> set ?rs \<or>
          (\<exists>x\<in>set ?rs. r = x\<lparr>total_hops := hops + 1, estimated_rtt_ms := f, last_updated := now\<rparr>)"
        using set_update_first [of "\<lambda>r. next_hop r = sender" _ ?rs] by blast
      then show "reliability_invariant r" using rs inv_refresh by blast
    qed
    with all show ?thesis using upd by (rule table_routes_dict_set)
  next
    case (app f)
    have "\<forall>r\<in>set (?rs @ [new_route_path dest sender a (hops + 1) f now]). reliability_invariant r"
      using rs inv_new by auto
    with all show ?thesis using app by (rule table_routes_dict_set)
  qed
  then show ?thesis by (simp add: list_all_iff)
qed

text \<open>
  Claim C8. With counters that are not negative, the invariant
  \<open>reliability = success_count / (success_count + failure_count)\<close> when the denominator is
  positive, and \<open>reliability = 1\<close> when both counters are zero, holds for a route as
  \<open>handle_route_response\<close> constructs it, and is preserved by \<open>record_success\<close>, by
  \<open>record_failure\<close> and, for every route of the table, by the insert-or-update of
  \<open>handle_route_response\<close>.
\<close>

theorem reliability_invariant_preserved:
  "reliability_invariant (new_route_path t nh a h rtt u) \<and>
   (reliability_invariant r \<longrightarrow>
      reliability_invariant (record_success now r) \<and> reliability_invariant (record_failure r)) \<and>
   (list_all reliability_invariant (table_routes st) \<longrightarrow>
      list_all reliability_invariant
        (table_routes (snd (handle_route_response st now' sender sender_addr rid dest hops rtt'))))"
  using inv_new inv_success inv_failure hrr_table by blast

theorem reliability_invariant_preserved_witness:
  "reliability_invariant sample_route_path \<and>
   reliability_invariant (record_success 5000000 sample_route_path) \<and>
   reliability_invariant (record_failure sample_route_path) \<and>
   reliability (record_failure sample_route_path) = 0 \<and>
   reliability (record_success 5000000 (record_failure sample_route_path)) = 1 / 2 \<and>
   list_all reliability_invariant (table_routes peered_router) \<and>
   list_all reliability_invariant
     (table_routes (snd (handle_route_response peered_router 5000000 ''node-003''
        (''192.168.1.103'', 7777) ''req-0001'' ''controller'' 0 (Finite 10)))) \<and>
   length (table_routes (snd (handle_route_response peered_router 5000000 ''node-003''
        (''192.168.1.103'', 7777) ''req-0001'' ''controller'' 0 (Finite 10)))) = 2"
proof -
  have h1: "reliability_invariant sample_route_path"
    by (simp add: reliability_invariant_def sample_route_path_def)
  have h2: "list_all reliability_invariant (table_routes peered_router)"
    by (simp add: response_defs reliability_invariant_def)
  have v: "reliability (record_failure sample_route_path) = 0"
       "reliability (record_success 5000000 (record_failure sample_route_path)) = 1 / 2"
    by (simp_all add: record_failure_def record_success_def update_reliability_def
          sample_route_path_def Let_def)
  have n: "length (table_routes (snd (handle_route_response peered_router 5000000 ''node-003''
        (''192.168.1.103'', 7777) ''req-0001'' ''controller'' 0 (Finite 10)))) = 2"
    by (simp add: response_defs)
  show ?thesis
    using h1 h2 v n
      reliability_invariant_preserved [of "''controller''" "''node-002''"
        "(''192.168.1.102'', 7777)" 1 "Finite 50" 0 sample_route_path 5000000 peered_router 5000000
        "''node-003''" "(''192.168.1.103'', 7777)" "''req-0001''" "''controller''" 0 "Finite 10"]
    by blast
qed

subsection \<open>Pending route requests\<close>

lemma cleanup_pending:
  "pending_requests (snd (cleanup_expired_routes st now)) = pending_requests st"
  by (simp add: cleanup_expired_routes_def Let_def)

lemma hrr_pending:
  "pending_requests (snd (handle_route_response st now sender a rid dest hops rtt))
     = pending_requests st"
  by (simp add: handle_route_response_def Let_def split: option.splits)

lemma hrr_accepts:
  assumes "pending_requests st rid = Some t" and "peers st sender = Some peer"
  shows "\<exists>rs r. routes_of (snd (handle_route_response st now sender a rid dest hops rtt)) dest
                   = Some rs \<and>
      r \<in> set rs \<and> next_hop r = sender \<and> total_hops r = hops + 1 \<and> last_updated r = now \<and>
      estimated_rtt_ms r = float_plus rtt (rtt_or (rtt_ms peer) 20)"
proof -
  let ?st' = "snd (handle_route_response st now sender a rid dest hops rtt)"
  let ?rs = "case routes_of st dest of None \<Rightarrow> [] | Some rs \<Rightarrow> rs"
  let ?f = "\<lambda>r. r\<lparr>total_hops := hops + 1,
                   estimated_rtt_ms := float_plus rtt (rtt_or (rtt_ms peer) 20), last_updated := now\<rparr>"
  let ?new = "new_route_path dest sender a (hops + 1) (float_plus rtt (rtt_or (rtt_ms peer) 20)) now"
  show ?thesis
  proof (cases "\<exists>x\<in>set ?rs. next_hop x = sender")
    case True
    then have "filter (\<lambda>r. next_hop r = sender) ?rs \<noteq> []" by (auto simp: filter_empty_conv)
    then have "route_table ?st' = dict_set dest
                 (update_first (\<lambda>r. next_hop r = sender) ?f ?rs) (route_table st)"
      using assms by (simp add: handle_route_response_def Let_def new_route_path_def)
    then have r: "routes_of ?st' dest = Some (update_first (\<lambda>r. next_hop r = sender) ?f ?rs)"
      by (rule routes_of_dict_set)
    from update_first_hit [OF True, of ?f] obtain x where
      x: "next_hop x = sender" "?f x \<in> set (update_first (\<lambda>r. next_hop r = sender) ?f ?rs)"
      by blast
    show ?thesis
      by (rule exI [of _ "update_first (\<lambda>r. next_hop r = sender) ?f ?rs"], rule exI [of _ "?f x"])
         (use r x in simp)
  next
    case False
    then have "filter (\<lambda>r. next_hop r = sender) ?rs = []" by (auto simp: filter_empty_conv)
    then have "route_table ?st' = dict_set dest (?rs @ [?new]) (route_table st)"
      using assms by (simp add: handle_route_response_def Let_def)
    then have r: "routes_of ?st' dest = Some (?rs @ [?new])"
      by (rule routes_of_dict_set)
    show ?thesis
      by (rule exI [of _ "?rs @ [?new]"], rule exI [of _ ?new])
         (use r in \<open>simp add: new_route_path_def\<close>)
  qed
qed

text \<open>
  Claim C3, as stated, fails: a request issued at time 0 is still pending one hour later,
  after the sweep \<open>cleanup_expired_routes\<close> has run, and the response that arrives then
  is accepted and its route inserted.
\<close>

theorem stale_route_response_accepted:
  "pending_requests peered_router ''req-0001'' = Some 0 \<and>
   pending_requests (snd (cleanup_expired_routes peered_router 3600000000)) ''req-0001''
     = Some 0 \<and>
   routes_of
     (snd (handle_route_response (snd (cleanup_expired_routes peered_router 3600000000))
        3600000000 ''node-003'' (''192.168.1.103'', 7777) ''req-0001'' ''controller'' 0 (Finite 10)))
     ''controller''
     = Some [new_route_path ''controller'' ''node-003'' (''192.168.1.103'', 7777) 1
               (Finite 160) 3600000000]"
  by (simp add: response_defs)

text \<open>
  Claim C3, amended. Entries of \<open>pending_requests\<close> are never removed: the sweep
  \<open>cleanup_expired_routes\<close> and \<open>handle_route_response\<close> leave \<open>pending_requests\<close> as it
  is, and a route response whose request id is pending and whose sender is in the peer
  table is accepted whatever the age of the request: afterwards the destination has a
  route through the sender with the responder's hop count plus one, the summed RTT and
  \<open>last_updated = now\<close>.
\<close>

theorem pending_requests_never_swept:
  "pending_requests (snd (cleanup_expired_routes st sweep_time)) = pending_requests st \<and>
   pending_requests (snd (handle_route_response st now sender a rid dest hops rtt))
     = pending_requests st \<and>
   (pending_requests st rid = Some t \<and> peers st sender = Some peer \<longrightarrow>
      (\<exists>rs r. routes_of (snd (handle_route_response st now sender a rid dest hops rtt)) dest
                 = Some rs \<and>
          r \<in> set rs \<and> next_hop r = sender \<and> total_hops r = hops + 1 \<and>
          last_updated r = now \<and> estimated_rtt_ms r = float_plus rtt (rtt_or (rtt_ms peer) 20)))"
proof (intro conjI impI)
  show "pending_requests (snd (cleanup_expired_routes st sweep_time)) = pending_requests st"
    by (rule cleanup_pending)
  show "pending_requests (snd (handle_route_response st now sender a rid dest hops rtt))
          = pending_requests st"
    by (rule hrr_pending)
  assume "pending_requests st rid = Some t \<and> peers st sender = Some peer"
  then have "pending_requests st rid = Some t" and "peers st sender = Some peer"
    by simp_all
  then show "\<exists>rs r. routes_of (snd (handle_route_response st now sender a rid dest hops rtt)) dest
                 = Some rs \<and>
          r \<in> set rs \<and> next_hop r = sender \<and> total_hops r = hops + 1 \<and>
          last_updated r = now \<and> estimated_rtt_ms r = float_plus rtt (rtt_or (rtt_ms peer) 20)"
    by (rule hrr_accepts)
qed

theorem pending_requests_never_swept_witness:
  "pending_requests peered_router ''req-0001'' = Some 0 \<and>
   peers peered_router ''node-003'' = Some node_003 \<and>
   pending_requests (snd (cleanup_expired_routes peered_router 3600000000)) ''req-0001''
     = Some 0 \<and>
   (\<exists>rs r. routes_of (snd (handle_route_response peered_router 3600000000 ''node-003''
                (''192.168.1.103'', 7777) ''req-0001'' ''controller'' 0 (Finite 10))) ''controller''
              = Some rs \<and>
       r \<in> set rs \<and> next_hop r = ''node-003'' \<and> total_hops r = 1 \<and>
       last_updated r = 3600000000 \<and> estimated_rtt_ms r = Finite 160)"
proof -
  have h1: "pending_requests peered_router ''req-0001'' = Some 0"
    by (simp add: peered_router_def pending_router_def)
  have h2: "peers peered_router ''node-003'' = Some node_003"
    by (simp add: peered_router_def)
  have r: "rtt_or (rtt_ms node_003) 20 = 150"
    by (simp add: rtt_or_def node_003_def)
  show ?thesis
    using h1 h2 r
      pending_requests_never_swept [of peered_router 3600000000 3600000000 "''node-003''"
        "(''192.168.1.103'', 7777)" "''req-0001''" "''controller''" 0 "Finite 10" 0 node_003]
    by simp
qed

subsection \<open>Relay acknowledgements\<close>

lemma self_ack:
  "destination m = node_id st \<Longrightarrow> handle_incoming_relay net ctrl st now (Some m) a = st"
  by (simp add: handle_incoming_relay_def handle_message_for_self_def send_relay_ack_def)

lemma terminal_forward:
  "destination m \<noteq> node_id st \<Longrightarrow> destination m = ''controller'' \<Longrightarrow>
   can_reach_controller_directly ctrl now \<Longrightarrow>
   handle_incoming_relay net ctrl st now (Some m) a = snd (forward_to_controller ctrl st now m a)"
  by (simp add: handle_incoming_relay_def)

lemma fwd_calls: "sendto_calls (snd (forward_to_controller ctrl st now m a)) = sendto_calls st"
  by (simp add: forward_to_controller_def send_relay_ack_def Let_def)

lemma fwd_outcome:
  "fst (forward_to_controller ctrl st now m a) \<longleftrightarrow>
     (msg_type m = ''heartbeat'' \<and>
        (\<exists>cmds. heartbeat ctrl (origin_node_id m) (payload m) = Returns (Some cmds))) \<or>
     (msg_type m = ''command_result'' \<and>
        (\<exists>b. report_command_result ctrl (payload m) = Returns b))"
  by (auto simp: forward_to_controller_def send_relay_ack_def Let_def split: outcome.splits)

lemmas ack_defs = mesh_router_def init_router_def sample_relay_message_def
  message_for_self_def mock_controller_def mock_network_def handle_incoming_relay_def
  handle_message_for_self_def send_relay_ack_def forward_to_controller_def
  can_reach_controller_directly_def timedelta_seconds_def Let_def

lemma send_relay_ack_sends_nothing: "send_relay_ack st mid origin success = st"
  by (simp add: send_relay_ack_def)

text \<open>
  Claim C2. The claim is that a \<open>RELAY_ACK\<close> datagram carrying the message id and the
  outcome is emitted when a relayed message is for this node or is forwarded terminally
  to the controller. \<open>_send_relay_ack\<close>, documented as sending the acknowledgement,
  builds the frame and returns without passing it to \<open>_send_to_peer\<close>: for a message
  destined for this node, and for a controller-destined message that this node forwards
  terminally, no call of \<open>sendto\<close> is made, so no datagram is emitted, although the socket
  is open.
\<close>

theorem relay_ack_never_emitted:
  "destination message_for_self = node_id mesh_router \<and>
   sendto_calls (handle_incoming_relay mock_network mock_controller mesh_router 1000000
     (Some message_for_self) (''192.168.1.102'', 7777)) = [] \<and>
   destination sample_relay_message = ''controller'' \<and>
   can_reach_controller_directly mock_controller 1000000 \<and>
   sendto_calls (handle_incoming_relay mock_network mock_controller mesh_router 1000000
     (Some sample_relay_message) (''192.168.1.102'', 7777)) = []"
  by (simp add: ack_defs)

subsection \<open>Relay candidates and the circuit breaker\<close>


lemma update_avg_route_table [simp]: "route_table (update_avg_hop_count st) = route_table st"
  by (simp add: update_avg_hop_count_def Let_def)

lemma update_avg_sendto [simp]: "sendto_calls (update_avg_hop_count st) = sendto_calls st"
  by (simp add: update_avg_hop_count_def Let_def)

lemma update_route_sendto [simp]: "sendto_calls (update_route st d i f) = sendto_calls st"
  by (simp add: update_route_def split: option.splits)




lemma record_failure_next_hop [simp]:
  "next_hop (record_failure r) = next_hop r" "next_hop_addr (record_failure r) = next_hop_addr r"
  by (simp_all add: record_failure_def update_reliability_def Let_def)














lemma get_all_routes_valid:
  "i \<in> set (get_all_routes st now d) \<Longrightarrow> \<not> is_expired now (deref st d i)"
  by (auto simp: get_all_routes_def deref_def split: option.splits)

lemma count_failed_fields [simp]:
  "sendto_calls (count_failed_relay st) = sendto_calls st"
  "route_table (count_failed_relay st) = route_table st"
  by (simp_all add: count_failed_relay_def)

lemma increment_hop_destination [simp]:
  "destination (snd (increment_hop m n)) = destination m"
  by (simp add: increment_hop_def Let_def)











end
